theory Spec2Isabelle
  imports Main
begin

section \<open>The chat turn pipeline of \<^verbatim>\<open>llm_server.cpp\<close>\<close>

text \<open>
  The adapter drives a third-party inference engine through its C interface. The
  engine is not part of the adapter, so every engine call is a field of the record
  \<open>engine\<close> below and the adapter's functions take that record as their first
  argument. Engine state reachable through \<^verbatim>\<open>llama_context*\<close> is a value of the
  type parameter \<open>'c\<close>, the vocabulary handle is \<open>'v\<close> and the sampling temperature
  (a \<^verbatim>\<open>float\<close> that the adapter only passes on) is \<open>'t\<close>.

  Bytes are \<open>char\<close>, byte buffers are \<open>string\<close>. A \<^verbatim>\<open>const char*\<close> is read up to its
  first NUL byte; a read that finds none inside the buffer, and a write outside an
  array, are undefined behaviour and are results of type \<open>error\<close>.
\<close>

subsection \<open>C strings and buffers\<close>

datatype error = NullPointer | OutOfBounds

definition NUL :: char where
  "NUL = CHR 0x00"

text \<open>The bytes a reader of a \<^verbatim>\<open>const char*\<close> sees: everything before the first NUL.\<close>

definition c_str :: "string \<Rightarrow> string" where
  "c_str s = takeWhile (\<lambda>b. b \<noteq> NUL) s"

text \<open>\<^verbatim>\<open>strlen\<close> on a buffer: the index of the first NUL, or a read past the end.\<close>

definition strlen :: "string \<Rightarrow> error + nat" where
  "strlen buf = (if NUL \<in> set buf then Inr (length (c_str buf)) else Inl OutOfBounds)"

definition strdup :: "string \<Rightarrow> string" where
  "strdup s = c_str s"

text \<open>
  An engine call that fills a caller's buffer is modelled by the bytes it wrote;
  \<open>store\<close> puts them at the front of the buffer and leaves the rest as it was.
\<close>

definition store :: "'a list \<Rightarrow> 'a list \<Rightarrow> 'a list" where
  "store written buf = take (length buf) written @ drop (length written) buf"

text \<open>\<^verbatim>\<open>std::vector::resize\<close>: the first \<open>n\<close> elements, new ones filled with \<open>x\<close>.\<close>

definition resize :: "nat \<Rightarrow> 'a \<Rightarrow> 'a list \<Rightarrow> 'a list" where
  "resize n x xs = take n xs @ replicate (n - length xs) x"

text \<open>What \<^verbatim>\<open>strncpy(dst, src, n)\<close> writes: \<open>n\<close> bytes of the C string, NUL after its end.\<close>

definition strncpy :: "string \<Rightarrow> nat \<Rightarrow> string" where
  "strncpy src n = take n (c_str src) @ replicate (n - length (c_str src)) NUL"

subsection \<open>The engine interface\<close>

type_synonym llama_token = int

record llama_chat_message =
  role :: string
  content :: string

datatype 't llama_sampler = llama_sampler_init_temp 't | llama_sampler_init_dist nat

record llama_batch =
  n_tokens :: nat
  token :: "llama_token list"
  pos :: "nat list option"
  seq_id :: "nat list list option"
  logits :: "bool list option"

text \<open>
  The calls of \<^verbatim>\<open>llama.h\<close> that the turn pipeline makes. A call that writes into a
  buffer takes the buffer's length and returns its \<^verbatim>\<open>int\<close> result with what it wrote.
  \<^item> \<open>llama_chat_apply_template vocab chat add_ass length\<close> (default template)
  \<^item> \<open>llama_tokenize vocab text n_tokens_max add_special parse_special\<close>
  \<^item> \<open>llama_decode ctx batch\<close>: the status and the context after the call
  \<^item> \<open>llama_sampler_sample chain ctx idx\<close>
  \<^item> \<open>llama_vocab_is_eog vocab token\<close>
  \<^item> \<open>llama_token_to_piece vocab token length lstrip special\<close>
  \<^item> \<open>llama_kv_self_clear ctx\<close>, \<open>llama_kv_self_n_tokens ctx\<close>
\<close>

record ('c, 'v, 't) engine =
  llama_chat_apply_template :: "'v \<Rightarrow> llama_chat_message list \<Rightarrow> bool \<Rightarrow> nat \<Rightarrow> int \<times> string"
  llama_tokenize :: "'v \<Rightarrow> string \<Rightarrow> nat \<Rightarrow> bool \<Rightarrow> bool \<Rightarrow> int \<times> llama_token list"
  llama_decode :: "'c \<Rightarrow> llama_batch \<Rightarrow> int \<times> 'c"
  llama_sampler_sample :: "'t llama_sampler list \<Rightarrow> 'c \<Rightarrow> int \<Rightarrow> llama_token"
  llama_vocab_is_eog :: "'v \<Rightarrow> llama_token \<Rightarrow> bool"
  llama_token_to_piece :: "'v \<Rightarrow> llama_token \<Rightarrow> nat \<Rightarrow> int \<Rightarrow> bool \<Rightarrow> int \<times> string"
  llama_kv_self_clear :: "'c \<Rightarrow> 'c"
  llama_kv_self_n_tokens :: "'c \<Rightarrow> int"

text \<open>
  Modelled from the spec: the batch helpers \<^verbatim>\<open>llama_batch_init\<close>,
  \<^verbatim>\<open>llama_batch_add\<close> and \<^verbatim>\<open>llama_batch_get_one\<close> are not in the adapter's
  source. A batch of size \<open>n\<close> starts empty; adding a token stores it with its position,
  sequence ids and logit flag; a one-shot batch carries tokens only and leaves
  positions and logit flags to the engine.
\<close>

definition llama_batch_init :: "nat \<Rightarrow> llama_batch" where
  "llama_batch_init n =
     \<lparr>n_tokens = 0, token = [], pos = Some [], seq_id = Some [], logits = Some []\<rparr>"

definition llama_batch_add ::
  "llama_batch \<Rightarrow> llama_token \<Rightarrow> nat \<Rightarrow> nat list \<Rightarrow> bool \<Rightarrow> llama_batch" where
  "llama_batch_add batch tok p seq_ids lg =
     batch\<lparr>n_tokens := n_tokens batch + 1,
           token := token batch @ [tok],
           pos := map_option (\<lambda>ps. ps @ [p]) (pos batch),
           seq_id := map_option (\<lambda>ss. ss @ [seq_ids]) (seq_id batch),
           logits := map_option (\<lambda>ls. ls @ [lg]) (logits batch)\<rparr>"

definition llama_batch_get_one :: "llama_token list \<Rightarrow> llama_batch" where
  "llama_batch_get_one toks =
     \<lparr>n_tokens = length toks, token = toks, pos = None, seq_id = None, logits = None\<rparr>"

subsection \<open>The session\<close>

record ('c, 'v) LlmContext =
  model :: "nat option"
  ctx :: "'c option"
  vocab :: 'v
  chat_history :: "llama_chat_message list"
  chat_buffer :: string

text \<open>
  A \<^verbatim>\<open>LlmContext*\<close> is \<open>None\<close> when null and \<open>Some\<close> of the session it points to
  otherwise. A function that changes the session returns the session after the call.
\<close>

definition sample_token :: "('c, 'v, 't) engine \<Rightarrow> 'c \<Rightarrow> 'v \<Rightarrow> 't \<Rightarrow> llama_token" where
  "sample_token e c v temperature =
     (let smpl = [];
          smpl = smpl @ [llama_sampler_init_temp temperature];
          smpl = smpl @ [llama_sampler_init_dist 12345]
      in llama_sampler_sample e smpl c (- 1))"

definition llm_kv_clear ::
  "('c, 'v, 't) engine \<Rightarrow> ('c, 'v) LlmContext option \<Rightarrow> ('c, 'v) LlmContext option" where
  "llm_kv_clear e llm =
     (case llm of
        None \<Rightarrow> llm
      | Some l \<Rightarrow>
          (case ctx l of
             None \<Rightarrow> llm
           | Some c \<Rightarrow> Some (l\<lparr>ctx := Some (llama_kv_self_clear e c)\<rparr>)))"

definition llm_kv_count :: "('c, 'v, 't) engine \<Rightarrow> ('c, 'v) LlmContext option \<Rightarrow> int" where
  "llm_kv_count e llm =
     (case llm of
        None \<Rightarrow> 0
      | Some l \<Rightarrow> (case ctx l of None \<Rightarrow> 0 | Some c \<Rightarrow> llama_kv_self_n_tokens e c))"

definition llm_chat_clear ::
  "('c, 'v, 't) engine \<Rightarrow> ('c, 'v) LlmContext option \<Rightarrow> error + ('c, 'v) LlmContext option" where
  "llm_chat_clear e llm =
     (case llm of
        None \<Rightarrow> Inl NullPointer
      | Some l \<Rightarrow> Inr (llm_kv_clear e (Some (l\<lparr>chat_history := []\<rparr>))))"

definition llm_chat_add_user ::
  "('c, 'v) LlmContext option \<Rightarrow> string \<Rightarrow> error + ('c, 'v) LlmContext option" where
  "llm_chat_add_user llm message =
     (case llm of
        None \<Rightarrow> Inl NullPointer
      | Some l \<Rightarrow>
          Inr (Some (l\<lparr>chat_history :=
                 chat_history l @ [\<lparr>role = ''user'', content = strdup message\<rparr>]\<rparr>)))"

subsection \<open>One turn: \<^verbatim>\<open>generate_response\<close>\<close>

text \<open>
  An early \<^verbatim>\<open>return\<close> of the turn with a string, or the value the next phase
  continues with.
\<close>

datatype 'a flow = Return string | Continue 'a

text \<open>
  Lines 96 to 119 and the \<^verbatim>\<open>strlen\<close> of lines 123 and 125: the history rendered into
  a zero-filled buffer of 8192 bytes, rendered again after a resize to \<open>len + 1\<close> bytes
  when \<open>len > 8192\<close>, and read back as a C string.
\<close>

definition rendered_prompt ::
  "('c, 'v, 't) engine \<Rightarrow> 'v \<Rightarrow> llama_chat_message list \<Rightarrow> error + string flow" where
  "rendered_prompt e v history =
     (let buf = resize 8192 NUL [];
          (len, written) = llama_chat_apply_template e v history True (length buf);
          buf = store written buf
      in if len < 0 then Inr (Return (strdup ''[Error: chat template failed]''))
         else
           let buf =
                 (if len > int (length buf)
                  then
                    let buf = resize (nat (len + 1)) NUL buf
                    in store (snd (llama_chat_apply_template e v history True (length buf))) buf
                  else buf)
           in (case strlen buf of
                 Inl err \<Rightarrow> Inl err
               | Inr k \<Rightarrow> Inr (Continue (take k buf))))"

text \<open>Lines 121 to 132: the rendered text tokenized into \<open>strlen + 16\<close> slots.\<close>

definition prompt_tokens ::
  "('c, 'v, 't) engine \<Rightarrow> 'v \<Rightarrow> llama_chat_message list \<Rightarrow> error + llama_token list flow" where
  "prompt_tokens e v history =
     (case rendered_prompt e v history of
        Inl err \<Rightarrow> Inl err
      | Inr (Return s) \<Rightarrow> Inr (Return s)
      | Inr (Continue text) \<Rightarrow>
          let tokens = resize (length text + 16) 0 [];
              (n, written) = llama_tokenize e v text (length tokens) True False
          in if n < 0 then Inr (Return (strdup ''[Error: tokenization failed]''))
             else Inr (Continue (resize (nat n) 0 (store written tokens))))"

text \<open>
  Lines 134 to 141: the prompt in one batch, only its last position marked for
  logits, decoded; the status of \<^verbatim>\<open>llama_decode\<close> is dropped. With no token the mark
  is written at index \<open>-1\<close>.
\<close>

definition prefill_batch :: "llama_token list \<Rightarrow> error + llama_batch" where
  "prefill_batch tokens =
     (let batch = llama_batch_init (length tokens);
          batch = fold (\<lambda>i b. llama_batch_add b (tokens ! i) i [0] False)
                    [0 ..< length tokens] batch
      in if n_tokens batch = 0 then Inl OutOfBounds
         else Inr (batch\<lparr>logits :=
                map_option (\<lambda>ls. ls[n_tokens batch - 1 := True]) (logits batch)\<rparr>))"

definition prefill ::
  "('c, 'v, 't) engine \<Rightarrow> 'c option \<Rightarrow> llama_token list \<Rightarrow> error + 'c" where
  "prefill e cp tokens =
     (case prefill_batch tokens of
        Inl err \<Rightarrow> Inl err
      | Inr batch \<Rightarrow>
          (case cp of
             None \<Rightarrow> Inl NullPointer
           | Some c \<Rightarrow> Inr (snd (llama_decode e c batch))))"

text \<open>
  Lines 152 to 160: the \<open>n\<close> bytes that \<^verbatim>\<open>llama_token_to_piece\<close> wrote into
  \<^verbatim>\<open>char piece[256]\<close> are appended to the response; with a sink, \<^verbatim>\<open>piece[n]\<close> is set
  to NUL first and the sink reads the buffer as a C string.
\<close>

definition append_piece ::
  "(string \<Rightarrow> 'u \<Rightarrow> 'u) option \<Rightarrow> 'u \<Rightarrow> string \<Rightarrow> int \<Rightarrow> string \<Rightarrow> error + string \<times> 'u" where
  "append_piece callback user_data response n piece =
     (if n > 0 then
        let response = response @ take (nat n) piece
        in (case callback of
              None \<Rightarrow> Inr (response, user_data)
            | Some cb \<Rightarrow>
                if n < 256
                then Inr (response, cb (c_str (take (nat n) piece @ [NUL])) user_data)
                else Inl OutOfBounds)
      else Inr (response, user_data))"

text \<open>Which exit of the loop of lines 145 to 165 was taken.\<close>

datatype stop = EndOfGeneration | MaxTokens | ContextLimit

text \<open>
  Lines 144 to 165. The result is the exit taken and the loop's variables there:
  \<open>i\<close>, \<open>n_pos\<close>, the engine context, the response and the sink's data.
\<close>

function decode_loop ::
  "('c, 'v, 't) engine \<Rightarrow> 'v \<Rightarrow> 't \<Rightarrow> (string \<Rightarrow> 'u \<Rightarrow> 'u) option \<Rightarrow> int \<Rightarrow>
   int \<Rightarrow> int \<Rightarrow> 'c \<Rightarrow> string \<Rightarrow> 'u \<Rightarrow> error + stop \<times> int \<times> int \<times> 'c \<times> string \<times> 'u" where
  "decode_loop e v temperature callback max_tokens i n_pos c response user_data =
     (if i < max_tokens then
        if n_pos < 8192 then
          let new_token = sample_token e c v temperature
          in if llama_vocab_is_eog e v new_token
             then Inr (EndOfGeneration, i, n_pos, c, response, user_data)
             else
               let (n, piece) = llama_token_to_piece e v new_token 256 0 True
               in (case append_piece callback user_data response n piece of
                     Inl err \<Rightarrow> Inl err
                   | Inr (response', user_data') \<Rightarrow>
                       let batch_next = llama_batch_get_one [new_token];
                           c' = snd (llama_decode e c batch_next)
                       in decode_loop e v temperature callback max_tokens
                            (i + 1) (n_pos + 1) c' response' user_data')
        else Inr (ContextLimit, i, n_pos, c, response, user_data)
      else Inr (MaxTokens, i, n_pos, c, response, user_data))"
  by pat_completeness auto
termination
  by (relation "measure (\<lambda>(e, v, t, cb, max_tokens, i, rest). nat (max_tokens - i))") auto

declare decode_loop.simps [simp del]

definition generate_response ::
  "('c, 'v, 't) engine \<Rightarrow> ('c, 'v) LlmContext option \<Rightarrow> int \<Rightarrow> 't \<Rightarrow>
   (string \<Rightarrow> 'u \<Rightarrow> 'u) option \<Rightarrow> 'u \<Rightarrow> error + ('c, 'v) LlmContext option \<times> 'u \<times> string" where
  "generate_response e llm max_tokens temperature callback user_data =
     (case llm of
        None \<Rightarrow> Inl NullPointer
      | Some l \<Rightarrow>
          (case prompt_tokens e (vocab l) (chat_history l) of
             Inl err \<Rightarrow> Inl err
           | Inr (Return s) \<Rightarrow> Inr (llm, user_data, s)
           | Inr (Continue tokens) \<Rightarrow>
               (case prefill e (ctx l) tokens of
                  Inl err \<Rightarrow> Inl err
                | Inr c \<Rightarrow>
                    (case decode_loop e (vocab l) temperature callback max_tokens
                            0 (int (length tokens)) c [] user_data of
                       Inl err \<Rightarrow> Inl err
                     | Inr (ex, i, n_pos, c', response, user_data') \<Rightarrow>
                         Inr (Some (l\<lparr>ctx := Some c'\<rparr>), user_data', strdup response)))))"

definition llm_chat_respond ::
  "('c, 'v, 't) engine \<Rightarrow> ('c, 'v) LlmContext option \<Rightarrow> int \<Rightarrow> 't \<Rightarrow>
   error + ('c, 'v) LlmContext option \<times> string" where
  "llm_chat_respond e llm max_tokens temperature =
     (case generate_response e llm max_tokens temperature None () of
        Inl err \<Rightarrow> Inl err
      | Inr (llm', u, result) \<Rightarrow> Inr (llm', result))"

definition llm_chat_respond_stream ::
  "('c, 'v, 't) engine \<Rightarrow> ('c, 'v) LlmContext option \<Rightarrow> int \<Rightarrow> 't \<Rightarrow>
   (string \<Rightarrow> 'u \<Rightarrow> 'u) option \<Rightarrow> 'u \<Rightarrow> error + ('c, 'v) LlmContext option \<times> 'u" where
  "llm_chat_respond_stream e llm max_tokens temperature callback user_data =
     (case generate_response e llm max_tokens temperature callback user_data of
        Inl err \<Rightarrow> Inl err
      | Inr (llm', user_data', result) \<Rightarrow> Inr (llm', user_data'))"

definition llm_generate ::
  "('c, 'v, 't) engine \<Rightarrow> ('c, 'v) LlmContext option \<Rightarrow> string \<Rightarrow> int \<Rightarrow> 't \<Rightarrow>
   error + ('c, 'v) LlmContext option \<times> string" where
  "llm_generate e llm prompt max_tokens temperature =
     (case llm_chat_clear e llm of
        Inl err \<Rightarrow> Inl err
      | Inr llm1 \<Rightarrow>
          (case llm_chat_add_user llm1 prompt of
             Inl err \<Rightarrow> Inl err
           | Inr llm2 \<Rightarrow> llm_chat_respond e llm2 max_tokens temperature))"

definition llm_generate_stream ::
  "('c, 'v, 't) engine \<Rightarrow> ('c, 'v) LlmContext option \<Rightarrow> string \<Rightarrow> int \<Rightarrow> 't \<Rightarrow>
   (string \<Rightarrow> 'u \<Rightarrow> 'u) option \<Rightarrow> 'u \<Rightarrow> error + ('c, 'v) LlmContext option \<times> 'u" where
  "llm_generate_stream e llm prompt max_tokens temperature callback user_data =
     (case llm_chat_clear e llm of
        Inl err \<Rightarrow> Inl err
      | Inr llm1 \<Rightarrow>
          (case llm_chat_add_user llm1 prompt of
             Inl err \<Rightarrow> Inl err
           | Inr llm2 \<Rightarrow>
               llm_chat_respond_stream e llm2 max_tokens temperature callback user_data))"

subsection \<open>The exits of the decode loop\<close>

text \<open>
  What an exit says about the loop's variables, from \<open>i\<close> and \<open>n_pos\<close> at the start to
  \<open>i'\<close>, \<open>n_pos'\<close> and the context \<open>c'\<close> at the exit: both counters advanced by the
  same amount; the \<^verbatim>\<open>break\<close> was taken inside the bounds on a token that ends the
  generation; the token bound is tested first, the context bound second.
\<close>

definition loop_exit ::
  "('c, 'v, 't) engine \<Rightarrow> 'v \<Rightarrow> 't \<Rightarrow> int \<Rightarrow> int \<Rightarrow> int \<Rightarrow> stop \<Rightarrow> int \<Rightarrow> int \<Rightarrow> 'c \<Rightarrow> bool" where
  "loop_exit e v temperature max_tokens i n_pos ex i' n_pos' c' \<longleftrightarrow>
     i \<le> i' \<and> (i \<le> max_tokens \<longrightarrow> i' \<le> max_tokens) \<and> n_pos' - i' = n_pos - i
     \<and> (ex = EndOfGeneration \<longrightarrow>
          i' < max_tokens \<and> n_pos' < 8192 \<and> llama_vocab_is_eog e v (sample_token e c' v temperature))
     \<and> (ex = MaxTokens \<longrightarrow> \<not> i' < max_tokens)
     \<and> (ex = ContextLimit \<longrightarrow> i' < max_tokens \<and> \<not> n_pos' < 8192)"

subsection \<open>The tokens of a turn\<close>

text \<open>
  The decode loop written as a sequence: the context after \<open>k\<close> iterations, the
  tokens sampled in them, and the bytes a token adds to the response. None of them
  looks at \<open>max_tokens\<close>, the position or the sink.
\<close>

definition piece_bytes :: "('c, 'v, 't) engine \<Rightarrow> 'v \<Rightarrow> llama_token \<Rightarrow> string" where
  "piece_bytes e v tok =
     (case llama_token_to_piece e v tok 256 0 True of
        (n, piece) \<Rightarrow> if n > 0 then take (nat n) piece else [])"

definition next_ctx :: "('c, 'v, 't) engine \<Rightarrow> 'v \<Rightarrow> 't \<Rightarrow> 'c \<Rightarrow> 'c" where
  "next_ctx e v temperature c =
     snd (llama_decode e c (llama_batch_get_one [sample_token e c v temperature]))"

primrec generated :: "('c, 'v, 't) engine \<Rightarrow> 'v \<Rightarrow> 't \<Rightarrow> 'c \<Rightarrow> nat \<Rightarrow> llama_token list" where
  "generated e v temperature c 0 = []"
| "generated e v temperature c (Suc k) =
     sample_token e c v temperature # generated e v temperature (next_ctx e v temperature c) k"

primrec ctx_after :: "('c, 'v, 't) engine \<Rightarrow> 'v \<Rightarrow> 't \<Rightarrow> 'c \<Rightarrow> nat \<Rightarrow> 'c" where
  "ctx_after e v temperature c 0 = c"
| "ctx_after e v temperature c (Suc k) = ctx_after e v temperature (next_ctx e v temperature c) k"

subsection \<open>An engine that always reports success\<close>

text \<open>
  The engine that differs from \<open>e\<close> only in the status of \<^verbatim>\<open>llama_decode\<close>: it leaves
  the same context and returns 0 every time.
\<close>

definition reports_success :: "('c, 'v, 't) engine \<Rightarrow> ('c, 'v, 't) engine" where
  "reports_success e = e\<lparr>llama_decode := \<lambda>c batch. (0, snd (llama_decode e c batch))\<rparr>"

subsection \<open>The convenience call as the spec words it\<close>

text \<open>
  \<open>generate\<close> is \<open>clear_history\<close>, then \<open>append_user\<close>, then \<open>respond\<close>: each step
  runs on the session the step before left, and a step that fails ends the sequence.
\<close>

definition and_then :: "error + 'a \<Rightarrow> ('a \<Rightarrow> error + 'b) \<Rightarrow> error + 'b" where
  "and_then r f = (case r of Inl err \<Rightarrow> Inl err | Inr x \<Rightarrow> f x)"

definition generate_spec ::
  "('c, 'v, 't) engine \<Rightarrow> ('c, 'v) LlmContext option \<Rightarrow> string \<Rightarrow> int \<Rightarrow> 't \<Rightarrow>
   error + ('c, 'v) LlmContext option \<times> string" where
  "generate_spec e llm prompt max_tokens temperature =
     and_then (llm_chat_clear e llm) (\<lambda>cleared.
     and_then (llm_chat_add_user cleared prompt) (\<lambda>appended.
       llm_chat_respond e appended max_tokens temperature))"

subsection \<open>The renderer's contract\<close>

text \<open>
  \<^verbatim>\<open>llama_chat_apply_template\<close> formats the chat into a string \<open>r\<close>, copies it into
  the caller's buffer with \<^verbatim>\<open>strncpy\<close> and returns the length of \<open>r\<close>, whatever the
  buffer's length. \<open>renders e v history r\<close> says that the engine \<open>e\<close> does so for this
  history, with the assistant prompt added.
\<close>

definition renders ::
  "('c, 'v, 't) engine \<Rightarrow> 'v \<Rightarrow> llama_chat_message list \<Rightarrow> string \<Rightarrow> bool" where
  "renders e v history r \<longleftrightarrow>
     NUL \<notin> set r \<and>
     (\<forall>len. llama_chat_apply_template e v history True len = (int (length r), strncpy r len))"

subsection \<open>A test engine\<close>

text \<open>
  A small deterministic engine for running the pipeline on concrete inputs. Its
  context is the list of tokens decoded so far. The template writes
  \<open>role:content;\<close> for every message and \<open>assistant:\<close> at the end, with the
  contract of \<^verbatim>\<open>llama_chat_apply_template\<close>: it returns the full length and copies
  as \<^verbatim>\<open>strncpy\<close> does, at most \<open>length\<close> bytes, padding with NUL. The tokenizer
  gives a leading token 1 and a token 3 for every byte. Sampling counts down from the
  last token of the context, a token below 1 ends the generation, and every other
  token is the piece \<open>a\<close>.
\<close>

definition mock_render :: "llama_chat_message list \<Rightarrow> bool \<Rightarrow> string" where
  "mock_render chat add_ass =
     concat (map (\<lambda>m. role m @ '':'' @ content m @ '';'') chat)
     @ (if add_ass then ''assistant:'' else [])"

definition mock_chat_apply_template ::
  "unit \<Rightarrow> llama_chat_message list \<Rightarrow> bool \<Rightarrow> nat \<Rightarrow> int \<times> string" where
  "mock_chat_apply_template v chat add_ass len =
     (if list_all (\<lambda>m. role m \<in> set [''system'', ''user'', ''assistant'']) chat
      then (int (length (mock_render chat add_ass)), strncpy (mock_render chat add_ass) len)
      else (- 1, []))"

definition mock_tokenize ::
  "unit \<Rightarrow> string \<Rightarrow> nat \<Rightarrow> bool \<Rightarrow> bool \<Rightarrow> int \<times> llama_token list" where
  "mock_tokenize v text n_tokens_max add_special parse_special =
     (let toks = (if add_special then [1] else []) @ map (\<lambda>b. 3) text
      in if length toks \<le> n_tokens_max then (int (length toks), toks)
         else (- int (length toks), []))"

definition mock_decode :: "llama_token list \<Rightarrow> llama_batch \<Rightarrow> int \<times> llama_token list" where
  "mock_decode c batch = (0, c @ token batch)"

definition mock_sampler_sample ::
  "int llama_sampler list \<Rightarrow> llama_token list \<Rightarrow> int \<Rightarrow> llama_token" where
  "mock_sampler_sample smpl c idx = (case c of [] \<Rightarrow> 0 | _ \<Rightarrow> last c - 1)"

definition mock_token_to_piece ::
  "unit \<Rightarrow> llama_token \<Rightarrow> nat \<Rightarrow> int \<Rightarrow> bool \<Rightarrow> int \<times> string" where
  "mock_token_to_piece v tok len lstrip special = (if 1 \<le> len then (1, ''a'') else (- 1, []))"

definition mock :: "(llama_token list, unit, int) engine" where
  "mock =
     \<lparr>llama_chat_apply_template = mock_chat_apply_template,
      llama_tokenize = mock_tokenize,
      llama_decode = mock_decode,
      llama_sampler_sample = mock_sampler_sample,
      llama_vocab_is_eog = (\<lambda>v tok. tok \<le> 0),
      llama_token_to_piece = mock_token_to_piece,
      llama_kv_self_clear = (\<lambda>c. []),
      llama_kv_self_n_tokens = (\<lambda>c. int (length c))\<rparr>"

definition session :: "llama_chat_message list \<Rightarrow> (llama_token list, unit) LlmContext" where
  "session chat =
     \<lparr>model = Some 0, ctx = Some [], vocab = (), chat_history = chat, chat_buffer = []\<rparr>"

section \<open>Properties\<close>

subsection \<open>C strings\<close>

lemma c_str_no_NUL: "NUL \<notin> set s \<Longrightarrow> c_str s = s"
  by (auto simp: c_str_def)

lemma c_str_NUL_terminated: "NUL \<notin> set r \<Longrightarrow> c_str (r @ NUL # xs) = r"
  by (induction r) (auto simp: c_str_def)

lemma c_str_padded: "NUL \<notin> set r \<Longrightarrow> c_str (r @ replicate k NUL) = r"
  by (cases k) (simp_all add: c_str_no_NUL c_str_NUL_terminated)

lemma strlen_padded: "NUL \<notin> set r \<Longrightarrow> 0 < k \<Longrightarrow> strlen (r @ replicate k NUL) = Inr (length r)"
  by (simp add: strlen_def c_str_padded)

lemma strlen_no_NUL: "NUL \<notin> set r \<Longrightarrow> strlen r = Inl OutOfBounds"
  by (simp add: strlen_def)

lemma length_resize: "length (resize n x xs) = n"
  by (simp add: resize_def)

lemma resize_Nil: "resize n x [] = replicate n x"
  by (simp add: resize_def)

lemma length_strncpy: "length (strncpy r n) = n"
  by (simp add: strncpy_def)

lemma store_full: "length written = length buf \<Longrightarrow> store written buf = written"
  by (simp add: store_def)

lemma strncpy_short: "NUL \<notin> set r \<Longrightarrow> length r \<le> n \<Longrightarrow> strncpy r n = r @ replicate (n - length r) NUL"
  by (simp add: strncpy_def c_str_no_NUL)

lemma strncpy_long: "NUL \<notin> set r \<Longrightarrow> n \<le> length r \<Longrightarrow> strncpy r n = take n r"
  by (simp add: strncpy_def c_str_no_NUL)

subsection \<open>Rendering the prompt\<close>

text \<open>
  With a renderer that keeps its contract, the text handed to the tokenizer is the
  whole rendering when it is shorter or longer than the first buffer. A rendering of
  exactly 8192 bytes fills the buffer and leaves no NUL for \<^verbatim>\<open>strlen\<close> to find.
\<close>

lemma rendered_prompt_fits:
  assumes "renders e v history r" and "length r < 8192"
  shows "rendered_prompt e v history = Inr (Continue r)"
proof -
  from assms(1) have nul: "NUL \<notin> set r"
    and call: "llama_chat_apply_template e v history True 8192 = (int (length r), strncpy r 8192)"
    by (simp_all add: renders_def)
  have buf: "store (strncpy r 8192) (replicate 8192 NUL) = r @ replicate (8192 - length r) NUL"
    using nul assms(2) by (simp add: store_full length_strncpy strncpy_short)
  have len: "strlen (r @ replicate (8192 - length r) NUL) = Inr (length r)"
    using nul assms(2) by (simp add: strlen_padded)
  show ?thesis
    using assms(2) by (simp add: rendered_prompt_def resize_Nil call buf len)
qed

lemma rendered_prompt_full:
  assumes "renders e v history r" and "length r = 8192"
  shows "rendered_prompt e v history = Inl OutOfBounds"
proof -
  from assms(1) have nul: "NUL \<notin> set r"
    and call: "llama_chat_apply_template e v history True 8192 = (int (length r), strncpy r 8192)"
    by (simp_all add: renders_def)
  have buf: "store (strncpy r 8192) (replicate 8192 NUL) = r"
    using nul assms(2) by (simp add: store_full length_strncpy strncpy_short)
  show ?thesis
    using assms(2) nul by (simp add: rendered_prompt_def resize_Nil call buf strlen_no_NUL)
qed

lemma rendered_prompt_grows:
  assumes "renders e v history r" and "8192 < length r"
  shows "rendered_prompt e v history = Inr (Continue r)"
proof -
  from assms(1) have nul: "NUL \<notin> set r"
    and call: "\<And>len. llama_chat_apply_template e v history True len = (int (length r), strncpy r len)"
    by (simp_all add: renders_def)
  have buf: "store (strncpy r 8192) (replicate 8192 NUL) = take 8192 r"
    using nul assms(2) by (simp add: store_full length_strncpy strncpy_long)
  have n1: "nat (int (length r) + 1) = Suc (length r)"
    by simp
  have buf2: "store (strncpy r (Suc (length r))) b = r @ [NUL]"
    if "length b = Suc (length r)" for b
    using nul that by (simp add: store_full length_strncpy strncpy_short)
  have len: "strlen (r @ [NUL]) = Inr (length r)"
    using nul strlen_padded [of r 1] by simp
  show ?thesis
    using assms(2)
    by (simp add: rendered_prompt_def resize_Nil call buf n1 buf2 length_resize len del: of_nat_Suc)
qed

subsection \<open>The test engine's prompt\<close>

lemma resize_store:
  "length written \<le> length buf \<Longrightarrow> resize (length written) x (store written buf) = written"
  by (simp add: store_def resize_def)

lemma mock_renders:
  assumes "llama_chat_apply_template e = mock_chat_apply_template"
    and "list_all (\<lambda>m. role m \<in> set [''system'', ''user'', ''assistant'']) chat"
    and "NUL \<notin> set (mock_render chat True)"
  shows "renders e () chat (mock_render chat True)"
  using assms by (simp add: renders_def mock_chat_apply_template_def)

lemma mock_prompt_tokens:
  assumes "llama_tokenize e = mock_tokenize"
    and "rendered_prompt e () chat = Inr (Continue r)"
  shows "prompt_tokens e () chat = Inr (Continue (1 # map (\<lambda>b. 3) r))"
proof -
  have "resize (Suc (length r)) 0 (store (1 # map (\<lambda>b. 3::int) r) (replicate (length r + 16) 0))
          = 1 # map (\<lambda>b. 3) r"
    using resize_store [of "1 # map (\<lambda>b. 3::int) r" "replicate (length r + 16) 0" 0] by simp
  then show ?thesis
    using assms by (simp add: prompt_tokens_def mock_tokenize_def resize_Nil del: of_nat_Suc)
qed

subsection \<open>The prefill batch\<close>

text \<open>
  The batch holds every prompt token at its index, in sequence 0, and only the last
  position asks for logits. An empty prompt has no last position.
\<close>

lemma fold_batch_add:
  "n \<le> length tokens \<Longrightarrow>
   fold (\<lambda>i b. llama_batch_add b (tokens ! i) i [0] False) [0 ..< n] (llama_batch_init k) =
     \<lparr>n_tokens = n, token = take n tokens, pos = Some [0 ..< n],
      seq_id = Some (replicate n [0]), logits = Some (replicate n False)\<rparr>"
proof (induction n)
  case 0
  then show ?case by (simp add: llama_batch_init_def)
next
  case (Suc n)
  then show ?case
    by (simp add: llama_batch_add_def take_Suc_conv_app_nth replicate_append_same)
qed

lemma prefill_batch_eq:
  "prefill_batch tokens =
     (if tokens = [] then Inl OutOfBounds
      else Inr \<lparr>n_tokens = length tokens, token = tokens, pos = Some [0 ..< length tokens],
                seq_id = Some (replicate (length tokens) [0]),
                logits = Some ((replicate (length tokens) False)[length tokens - 1 := True])\<rparr>)"
  by (simp add: prefill_batch_def fold_batch_add)

lemma mock_prefill:
  "llama_decode e = mock_decode \<Longrightarrow> tokens \<noteq> [] \<Longrightarrow> prefill e (Some c) tokens = Inr (c @ tokens)"
  by (simp add: prefill_def prefill_batch_eq mock_decode_def)

lemma hi_rendered:
  assumes "llama_chat_apply_template e = mock_chat_apply_template"
  shows "rendered_prompt e () [\<lparr>role = ''user'', content = ''hi''\<rparr>] = Inr (Continue ''user:hi;assistant:'')"
proof -
  have "renders e () [\<lparr>role = ''user'', content = ''hi''\<rparr>]
          (mock_render [\<lparr>role = ''user'', content = ''hi''\<rparr>] True)"
    using assms by (rule mock_renders) (simp_all add: mock_render_def NUL_def)
  from rendered_prompt_fits [OF this] show ?thesis
    by (simp add: mock_render_def)
qed

lemma hi_tokens:
  assumes "llama_chat_apply_template e = mock_chat_apply_template"
    and "llama_tokenize e = mock_tokenize"
  shows "prompt_tokens e () [\<lparr>role = ''user'', content = ''hi''\<rparr>] = Inr (Continue (1 # replicate 18 3))"
  using mock_prompt_tokens [OF assms(2) hi_rendered [OF assms(1)]]
  by (simp add: numeral_eq_Suc)

lemmas mock_simps = mock_def mock_decode_def mock_sampler_sample_def mock_token_to_piece_def
  sample_token_def append_piece_def llama_batch_get_one_def

subsection \<open>Error sentinels\<close>

text \<open>
  Claim C6. When the renderer returns a negative length the turn returns exactly
  \<open>[Error: chat template failed]\<close>; when the rendering succeeded and the tokenizer
  returns a negative count it returns exactly \<open>[Error: tokenization failed]\<close>. Both
  are ordinary returns of the turn: the session and the sink's data are as before
  the call, and nothing else reports the error.
\<close>

theorem generate_response_sentinels:
  "(fst (llama_chat_apply_template e (vocab l) (chat_history l) True 8192) < 0 \<longrightarrow>
      generate_response e (Some l) max_tokens temperature callback user_data
        = Inr (Some l, user_data, ''[Error: chat template failed]''))
   \<and> (rendered_prompt e (vocab l) (chat_history l) = Inr (Continue text)
        \<and> fst (llama_tokenize e (vocab l) text (length text + 16) True False) < 0 \<longrightarrow>
      generate_response e (Some l) max_tokens temperature callback user_data
        = Inr (Some l, user_data, ''[Error: tokenization failed]''))"
proof -
  have sentinel1: "strdup ''[Error: chat template failed]'' = ''[Error: chat template failed]''"
    by (simp add: strdup_def c_str_def NUL_def)
  have sentinel2: "strdup ''[Error: tokenization failed]'' = ''[Error: tokenization failed]''"
    by (simp add: strdup_def c_str_def NUL_def)
  have "generate_response e (Some l) max_tokens temperature callback user_data
          = Inr (Some l, user_data, ''[Error: chat template failed]'')"
    if "fst (llama_chat_apply_template e (vocab l) (chat_history l) True 8192) < 0"
    using that
    by (auto simp: generate_response_def prompt_tokens_def rendered_prompt_def sentinel1 Let_def
        length_resize split: prod.splits)
  moreover have "generate_response e (Some l) max_tokens temperature callback user_data
          = Inr (Some l, user_data, ''[Error: tokenization failed]'')"
    if "rendered_prompt e (vocab l) (chat_history l) = Inr (Continue text)"
      and "fst (llama_tokenize e (vocab l) text (length text + 16) True False) < 0"
    using that
    by (auto simp: generate_response_def prompt_tokens_def sentinel2 Let_def length_resize
        split: prod.splits)
  ultimately show ?thesis by blast
qed

text \<open>Both sentinels on the test engine, the second with a tokenizer that fails.\<close>

theorem generate_response_sentinels_witness:
  "fst (llama_chat_apply_template mock () [\<lparr>role = ''usr'', content = ''hi''\<rparr>] True 8192) < 0
   \<and> generate_response mock (Some (session [\<lparr>role = ''usr'', content = ''hi''\<rparr>])) 4 0 None ()
       = Inr (Some (session [\<lparr>role = ''usr'', content = ''hi''\<rparr>]), (),
              ''[Error: chat template failed]'')
   \<and> rendered_prompt (mock\<lparr>llama_tokenize := \<lambda>v text n a p. (- 1, [])\<rparr>) ()
         [\<lparr>role = ''user'', content = ''hi''\<rparr>] = Inr (Continue ''user:hi;assistant:'')
   \<and> generate_response (mock\<lparr>llama_tokenize := \<lambda>v text n a p. (- 1, [])\<rparr>)
         (Some (session [\<lparr>role = ''user'', content = ''hi''\<rparr>])) 4 0 None ()
       = Inr (Some (session [\<lparr>role = ''user'', content = ''hi''\<rparr>]), (),
              ''[Error: tokenization failed]'')"
proof -
  have a: "fst (llama_chat_apply_template mock () [\<lparr>role = ''usr'', content = ''hi''\<rparr>] True 8192) < 0"
    by (simp add: mock_def mock_chat_apply_template_def)
  have b: "rendered_prompt (mock\<lparr>llama_tokenize := \<lambda>v text n a p. (- 1, [])\<rparr>) ()
         [\<lparr>role = ''user'', content = ''hi''\<rparr>] = Inr (Continue ''user:hi;assistant:'')"
    by (rule hi_rendered) (simp add: mock_def)
  show ?thesis
    using a b
      generate_response_sentinels [of mock "session [\<lparr>role = ''usr'', content = ''hi''\<rparr>]"
        4 0 None "()" "[]"]
      generate_response_sentinels [of "mock\<lparr>llama_tokenize := \<lambda>v text n a p. (- 1, [])\<rparr>"
        "session [\<lparr>role = ''user'', content = ''hi''\<rparr>]" 4 0 None "()" "''user:hi;assistant:''"]
    by (simp add: session_def)
qed

subsection \<open>The prompt builder\<close>

text \<open>
  For every rendering that is not exactly 8192 bytes long the builder hands the whole
  rendering to the tokenizer, with room for its length plus 16 tokens, the special
  tokens added and the text not parsed for special tokens, and keeps the tokens
  counted by the tokenizer.
\<close>

lemma prompt_tokens_of_rendering:
  assumes "renders e v history r" and "length r \<noteq> 8192"
  shows "prompt_tokens e v history =
           (case llama_tokenize e v r (length r + 16) True False of
              (n, written) \<Rightarrow>
                if n < 0 then Inr (Return ''[Error: tokenization failed]'')
                else Inr (Continue (resize (nat n) 0 (store written (replicate (length r + 16) 0)))))"
proof -
  have "rendered_prompt e v history = Inr (Continue r)"
    using assms rendered_prompt_fits [of e v history r] rendered_prompt_grows [of e v history r]
    by (cases "length r < 8192") simp_all
  then show ?thesis
    by (simp add: prompt_tokens_def resize_Nil length_resize strdup_def c_str_def NUL_def
        split: prod.splits)
qed

subsection \<open>A rendering that fills the first buffer\<close>

text \<open>
  Claim C5. The prompt builder is to tokenize the rendered bytes, all of them. For a
  history that renders to exactly 8192 bytes the renderer fills the buffer and
  \<open>len > 8192\<close> is false, so the buffer is not enlarged to \<open>len + 1\<close> and \<^verbatim>\<open>strlen\<close>
  runs past its end: the turn has no defined result. The test engine renders a user
  message of 8176 bytes to 8192 bytes.
\<close>

theorem rendered_prompt_8192_overrun:
  "length (mock_render [\<lparr>role = ''user'', content = replicate 8176 (CHR ''x'')\<rparr>] True) = 8192
   \<and> rendered_prompt mock () [\<lparr>role = ''user'', content = replicate 8176 (CHR ''x'')\<rparr>]
       = Inl OutOfBounds
   \<and> generate_response mock
         (Some (session [\<lparr>role = ''user'', content = replicate 8176 (CHR ''x'')\<rparr>])) 4 0 None ()
       = Inl OutOfBounds"
proof -
  let ?chat = "[\<lparr>role = ''user'', content = replicate 8176 (CHR ''x'')\<rparr>]"
  have len: "length (mock_render ?chat True) = 8192"
    by (simp add: mock_render_def)
  have "renders mock () ?chat (mock_render ?chat True)"
    by (rule mock_renders) (simp_all add: mock_def mock_render_def NUL_def)
  from rendered_prompt_full [OF this len]
  have r: "rendered_prompt mock () ?chat = Inl OutOfBounds" .
  then show ?thesis
    using len by (simp add: generate_response_def prompt_tokens_def session_def)
qed

subsection \<open>The session operations\<close>

text \<open>
  Claim C3. \<open>llm_generate\<close> returns what the sequence \<open>llm_chat_clear\<close>,
  \<open>llm_chat_add_user\<close>, \<open>llm_chat_respond\<close> returns, result string and session after
  the call alike, for every session pointer, prompt, \<open>max_tokens\<close> and temperature.
\<close>

theorem llm_generate_refines_spec:
  "llm_generate e llm prompt max_tokens temperature = generate_spec e llm prompt max_tokens temperature"
  by (simp add: llm_generate_def generate_spec_def and_then_def)

text \<open>
  Claim C7. Clearing the history also clears the engine's cache: after
  \<open>llm_chat_clear\<close> the history is empty and \<open>llm_kv_count\<close> is 0; after \<open>llm_kv_clear\<close>
  the history is as before and \<open>llm_kv_count\<close> is 0. The count is the engine's, so
  the engine must report 0 tokens for a cache it has just cleared.
\<close>

theorem clear_resets_cache:
  assumes "\<forall>c. llama_kv_self_n_tokens e (llama_kv_self_clear e c) = 0"
  shows "(\<exists>l'. llm_chat_clear e (Some l) = Inr (Some l') \<and> chat_history l' = []
            \<and> llm_kv_count e (Some l') = 0)
       \<and> (\<exists>l'. llm_kv_clear e (Some l) = Some l' \<and> chat_history l' = chat_history l
            \<and> llm_kv_count e (Some l') = 0)"
  using assms
  by (cases "ctx l") (simp_all add: llm_chat_clear_def llm_kv_clear_def llm_kv_count_def)

text \<open>A session of the test engine with three tokens in its cache.\<close>

theorem clear_resets_cache_witness:
  "llm_chat_clear mock (Some ((session [\<lparr>role = ''user'', content = ''hi''\<rparr>])\<lparr>ctx := Some [1, 3, 3]\<rparr>))
     = Inr (Some (session []))
   \<and> llm_kv_count mock (Some (session [])) = 0
   \<and> llm_kv_count mock (Some ((session [\<lparr>role = ''user'', content = ''hi''\<rparr>])\<lparr>ctx := Some [1, 3, 3]\<rparr>)) = 3
   \<and> llm_kv_clear mock (Some ((session [\<lparr>role = ''user'', content = ''hi''\<rparr>])\<lparr>ctx := Some [1, 3, 3]\<rparr>))
     = Some (session [\<lparr>role = ''user'', content = ''hi''\<rparr>])
   \<and> llm_kv_count mock (Some (session [\<lparr>role = ''user'', content = ''hi''\<rparr>])) = 0"
proof -
  have "\<forall>c. llama_kv_self_n_tokens mock (llama_kv_self_clear mock c) = 0"
    by (simp add: mock_def)
  from clear_resets_cache [OF this, of "(session [\<lparr>role = ''user'', content = ''hi''\<rparr>])\<lparr>ctx := Some [1, 3, 3]\<rparr>"]
  show ?thesis
    by (simp add: llm_chat_clear_def llm_kv_clear_def llm_kv_count_def session_def mock_def)
qed

subsection \<open>The history is not written by a turn\<close>

text \<open>
  Claim C9. A turn that returns leaves the chat history as it was, entry for entry:
  the reply goes to the caller only. The session after the turn is the session
  before it, or that session with a new engine context.
\<close>

theorem generate_response_keeps_history:
  assumes "generate_response e llm max_tokens temperature callback user_data
             = Inr (llm', user_data', result)"
  shows "\<exists>l c'. llm = Some l \<and> (llm' = Some l \<or> llm' = Some (l\<lparr>ctx := Some c'\<rparr>))
           \<and> map_option chat_history llm' = Some (chat_history l)"
  using assms
  by (auto simp: generate_response_def split: option.splits sum.splits flow.splits)

text \<open>A streamed turn on the test engine: two pieces, the history still one message.\<close>

theorem generate_response_keeps_history_witness:
  "generate_response mock (Some (session [\<lparr>role = ''user'', content = ''hi''\<rparr>])) 4 0
       (Some (\<lambda>p u. u @ [p])) []
     = Inr (Some ((session [\<lparr>role = ''user'', content = ''hi''\<rparr>])
               \<lparr>ctx := Some (1 # replicate 18 3 @ [2, 1])\<rparr>), [''a'', ''a''], ''aa'')
   \<and> map_option chat_history (Some ((session [\<lparr>role = ''user'', content = ''hi''\<rparr>])
               \<lparr>ctx := Some (1 # replicate 18 3 @ [2, 1])\<rparr>))
     = Some (chat_history (session [\<lparr>role = ''user'', content = ''hi''\<rparr>]))"
proof -
  have tokens: "prompt_tokens mock () [\<lparr>role = ''user'', content = ''hi''\<rparr>]
      = Inr (Continue (1 # replicate 18 3))"
    by (rule hi_tokens) (simp_all add: mock_def)
  have pre: "prefill mock (Some []) (1 # replicate 18 3) = Inr ([] @ 1 # replicate 18 3)"
    by (rule mock_prefill) (simp_all add: mock_def)
  have run: "generate_response mock (Some (session [\<lparr>role = ''user'', content = ''hi''\<rparr>])) 4 0
       (Some (\<lambda>p u. u @ [p])) []
     = Inr (Some ((session [\<lparr>role = ''user'', content = ''hi''\<rparr>])
               \<lparr>ctx := Some (1 # replicate 18 3 @ [2, 1])\<rparr>), [''a'', ''a''], ''aa'')"
    apply (simp add: generate_response_def session_def tokens pre)
    apply (simp add: decode_loop.simps mock_simps strdup_def c_str_def NUL_def)
    done
  from generate_response_keeps_history [OF run] run show ?thesis
    by simp
qed

subsection \<open>The decode loop\<close>

lemma decode_loop_step:
  assumes "i < max_tokens" and "n_pos < 8192"
    and "\<not> llama_vocab_is_eog e v (sample_token e c v temperature)"
    and "llama_token_to_piece e v (sample_token e c v temperature) 256 0 True = (n, piece)"
    and "append_piece callback user_data response n piece = Inr (response', user_data')"
  shows "decode_loop e v temperature callback max_tokens i n_pos c response user_data
           = decode_loop e v temperature callback max_tokens (i + 1) (n_pos + 1)
               (snd (llama_decode e c (llama_batch_get_one [sample_token e c v temperature])))
               response' user_data'"
  using assms by (subst decode_loop.simps) simp

lemma decode_loop_eog:
  assumes "i < max_tokens" and "n_pos < 8192"
    and "llama_vocab_is_eog e v (sample_token e c v temperature)"
  shows "decode_loop e v temperature callback max_tokens i n_pos c response user_data
           = Inr (EndOfGeneration, i, n_pos, c, response, user_data)"
  using assms by (subst decode_loop.simps) simp

lemma decode_loop_context_limit:
  assumes "i < max_tokens" and "\<not> n_pos < 8192"
  shows "decode_loop e v temperature callback max_tokens i n_pos c response user_data
           = Inr (ContextLimit, i, n_pos, c, response, user_data)"
  using assms by (subst decode_loop.simps) simp

lemma decode_loop_max_tokens:
  assumes "\<not> i < max_tokens"
  shows "decode_loop e v temperature callback max_tokens i n_pos c response user_data
           = Inr (MaxTokens, i, n_pos, c, response, user_data)"
  using assms by (subst decode_loop.simps) simp

lemma append_piece_response:
  assumes "llama_token_to_piece e v tok 256 0 True = (n, piece)"
    and "append_piece callback user_data response n piece = Inr (response', user_data')"
  shows "response' = response @ piece_bytes e v tok"
  using assms by (auto simp: append_piece_def piece_bytes_def Let_def split: if_splits option.splits)

lemma append_piece_overrun:
  assumes "append_piece callback user_data response n piece = Inl err"
  shows "err = OutOfBounds \<and> callback \<noteq> None \<and> 256 \<le> n"
  using assms by (auto simp: append_piece_def Let_def split: if_splits option.splits)

text \<open>
  A loop that returns has run \<open>i' - i\<close> iterations: its context is the context after
  that many iterations, none of the tokens sampled in them ends the generation, and
  the response has grown by their bytes, in order.
\<close>

lemma decode_loop_trace:
  assumes "decode_loop e v temperature callback max_tokens i n_pos c response user_data
             = Inr (ex, i', n_pos', c', response', user_data')"
  shows "i \<le> i'
       \<and> c' = ctx_after e v temperature c (nat (i' - i))
       \<and> list_all (\<lambda>tok. \<not> llama_vocab_is_eog e v tok) (generated e v temperature c (nat (i' - i)))
       \<and> response' = response @ concat (map (piece_bytes e v) (generated e v temperature c (nat (i' - i))))"
  using assms
proof (induction e v temperature callback max_tokens i n_pos c response user_data
    rule: decode_loop.induct)
  case (1 e v temperature callback max_tokens i n_pos c response user_data)
  let ?tok = "sample_token e c v temperature"
  consider (max) "\<not> i < max_tokens" | (lim) "i < max_tokens" "\<not> n_pos < 8192"
    | (eog) "i < max_tokens" "n_pos < 8192" "llama_vocab_is_eog e v ?tok"
    | (step) "i < max_tokens" "n_pos < 8192" "\<not> llama_vocab_is_eog e v ?tok"
    by blast
  then show ?case
  proof cases
    case max
    with "1.prems" show ?thesis by (simp add: decode_loop_max_tokens)
  next
    case lim
    with "1.prems" show ?thesis by (simp add: decode_loop_context_limit)
  next
    case eog
    with "1.prems" show ?thesis by (simp add: decode_loop_eog)
  next
    case step
    obtain n piece where np: "llama_token_to_piece e v ?tok 256 0 True = (n, piece)"
      by (cases "llama_token_to_piece e v ?tok 256 0 True")
    show ?thesis
    proof (cases "append_piece callback user_data response n piece")
      case (Inl err)
      with "1.prems" step np show ?thesis
        by (subst (asm) decode_loop.simps) simp
    next
      case (Inr b)
      then obtain r1 u1 where ap: "append_piece callback user_data response n piece = Inr (r1, u1)"
        by (cases b) simp
      have r1: "r1 = response @ piece_bytes e v ?tok"
        using append_piece_response [OF np ap] .
      from "1.prems" have run: "decode_loop e v temperature callback max_tokens (i + 1) (n_pos + 1)
               (next_ctx e v temperature c) r1 u1
             = Inr (ex, i', n_pos', c', response', user_data')"
        by (simp add: decode_loop_step [OF step np ap] next_ctx_def)
      from "1.IH" [OF step(1) step(2) refl step(3) refl np [symmetric] ap refl refl refl
          run [unfolded next_ctx_def]]
      have ih: "i + 1 \<le> i'"
        "c' = ctx_after e v temperature (next_ctx e v temperature c) (nat (i' - (i + 1)))"
        "list_all (\<lambda>tok. \<not> llama_vocab_is_eog e v tok)
           (generated e v temperature (next_ctx e v temperature c) (nat (i' - (i + 1))))"
        "response' = r1 @ concat (map (piece_bytes e v)
           (generated e v temperature (next_ctx e v temperature c) (nat (i' - (i + 1)))))"
        by (simp_all add: next_ctx_def)
      have suc: "nat (i' - i) = Suc (nat (i' - (i + 1)))"
        using ih(1) by simp
      show ?thesis
        unfolding suc using ih step(3) r1 by simp
    qed
  qed
qed

text \<open>
  The loop always ends. It ends in the write outside \<^verbatim>\<open>piece\<close>, which needs a sink,
  or it leaves by one of its three exits.
\<close>

lemma decode_loop_result:
  "(callback \<noteq> None
      \<and> decode_loop e v temperature callback max_tokens i n_pos c response user_data
          = Inl OutOfBounds)
   \<or> (\<exists>ex i' n_pos' c' response' user_data'.
          decode_loop e v temperature callback max_tokens i n_pos c response user_data
            = Inr (ex, i', n_pos', c', response', user_data')
          \<and> loop_exit e v temperature max_tokens i n_pos ex i' n_pos' c')"
proof (induction e v temperature callback max_tokens i n_pos c response user_data
    rule: decode_loop.induct)
  case (1 e v temperature callback max_tokens i n_pos c response user_data)
  let ?tok = "sample_token e c v temperature"
  consider (max) "\<not> i < max_tokens" | (lim) "i < max_tokens" "\<not> n_pos < 8192"
    | (eog) "i < max_tokens" "n_pos < 8192" "llama_vocab_is_eog e v ?tok"
    | (step) "i < max_tokens" "n_pos < 8192" "\<not> llama_vocab_is_eog e v ?tok"
    by blast
  then show ?case
  proof cases
    case max
    then show ?thesis by (simp add: decode_loop_max_tokens loop_exit_def)
  next
    case lim
    then show ?thesis by (simp add: decode_loop_context_limit loop_exit_def)
  next
    case eog
    then show ?thesis by (simp add: decode_loop_eog loop_exit_def)
  next
    case step
    obtain n piece where np: "llama_token_to_piece e v ?tok 256 0 True = (n, piece)"
      by (cases "llama_token_to_piece e v ?tok 256 0 True")
    show ?thesis
    proof (cases "append_piece callback user_data response n piece")
      case (Inl err)
      have "decode_loop e v temperature callback max_tokens i n_pos c response user_data = Inl err"
        using step np Inl by (subst decode_loop.simps) simp
      with append_piece_overrun [OF Inl] show ?thesis by simp
    next
      case (Inr b)
      then obtain r1 u1 where ap: "append_piece callback user_data response n piece = Inr (r1, u1)"
        by (cases b) simp
      let ?c = "snd (llama_decode e c (llama_batch_get_one [?tok]))"
      from "1.IH" [OF step(1) step(2) refl step(3) refl np [symmetric] ap refl refl refl]
      consider (bad) "callback \<noteq> None"
          "decode_loop e v temperature callback max_tokens (i + 1) (n_pos + 1) ?c r1 u1
             = Inl OutOfBounds"
        | (good) ex i' n_pos' c' r' u' where
          "decode_loop e v temperature callback max_tokens (i + 1) (n_pos + 1) ?c r1 u1
              = Inr (ex, i', n_pos', c', r', u')"
          "loop_exit e v temperature max_tokens (i + 1) (n_pos + 1) ex i' n_pos' c'"
        by (elim disjE exE conjE)
      then show ?thesis
      proof cases
        case bad
        then show ?thesis by (simp add: decode_loop_step [OF step np ap])
      next
        case good
        have "loop_exit e v temperature max_tokens i n_pos ex i' n_pos' c'"
          using good(2) step(1) unfolding loop_exit_def by auto
        with good(1) show ?thesis
          unfolding decode_loop_step [OF step np ap] by blast
      qed
    qed
  qed
qed

text \<open>
  A turn with positive \<open>max_tokens\<close> whose prompt was built and prefilled either runs
  into that write, or returns the string of the \<open>i\<close> tokens it generated, none of
  them end-of-generation and \<open>i\<close> at most \<open>max_tokens\<close>, by exactly one exit: the
  \<^verbatim>\<open>break\<close> on an end-of-generation token while both bounds still hold; the token
  bound, exactly when \<open>max_tokens\<close> tokens were generated, whatever the position; the
  context bound, when fewer were generated and the position has reached 8192.
\<close>

lemma turn_result:
  assumes "0 < max_tokens"
    and "prompt_tokens e (vocab l) (chat_history l) = Inr (Continue tokens)"
    and "prefill e (ctx l) tokens = Inr c"
  shows "(callback \<noteq> None
          \<and> generate_response e (Some l) max_tokens temperature callback user_data
              = Inl OutOfBounds)
    \<or> (\<exists>ex i n_pos c' response user_data'.
          decode_loop e (vocab l) temperature callback max_tokens 0 (int (length tokens)) c []
              user_data
            = Inr (ex, i, n_pos, c', response, user_data')
        \<and> generate_response e (Some l) max_tokens temperature callback user_data
            = Inr (Some (l\<lparr>ctx := Some c'\<rparr>), user_data', strdup response)
        \<and> 0 \<le> i \<and> i \<le> max_tokens \<and> n_pos = int (length tokens) + i
        \<and> length (generated e (vocab l) temperature c (nat i)) = nat i
        \<and> list_all (\<lambda>tok. \<not> llama_vocab_is_eog e (vocab l) tok)
              (generated e (vocab l) temperature c (nat i))
        \<and> response = concat (map (piece_bytes e (vocab l))
              (generated e (vocab l) temperature c (nat i)))
        \<and> c' = ctx_after e (vocab l) temperature c (nat i)
        \<and> (ex = EndOfGeneration \<longleftrightarrow> i < max_tokens \<and> n_pos < 8192)
        \<and> (ex = EndOfGeneration \<longrightarrow>
              llama_vocab_is_eog e (vocab l) (sample_token e c' (vocab l) temperature))
        \<and> (ex = MaxTokens \<longleftrightarrow> i = max_tokens)
        \<and> (ex = ContextLimit \<longleftrightarrow> i < max_tokens \<and> 8192 \<le> n_pos))"
proof -
  let ?loop = "decode_loop e (vocab l) temperature callback max_tokens 0 (int (length tokens)) c []
    user_data"
  from decode_loop_result [of callback e "vocab l" temperature max_tokens 0 "int (length tokens)"
      c "[]" user_data]
  consider (bad) "callback \<noteq> None" "?loop = Inl OutOfBounds"
    | (good) ex i n_pos c' response user_data' where
        "?loop = Inr (ex, i, n_pos, c', response, user_data')"
        "loop_exit e (vocab l) temperature max_tokens 0 (int (length tokens)) ex i n_pos c'"
    by (elim disjE exE conjE)
  then show ?thesis
  proof cases
    case bad
    then show ?thesis
      by (simp add: generate_response_def assms(2,3))
  next
    case good
    have turn: "generate_response e (Some l) max_tokens temperature callback user_data
        = Inr (Some (l\<lparr>ctx := Some c'\<rparr>), user_data', strdup response)"
      by (simp add: generate_response_def assms(2,3) good(1))
    have bounds: "0 \<le> i \<and> i \<le> max_tokens \<and> n_pos = int (length tokens) + i"
      using good(2) assms(1) unfolding loop_exit_def by auto
    have exits: "(ex = EndOfGeneration \<longleftrightarrow> i < max_tokens \<and> n_pos < 8192)
      \<and> (ex = EndOfGeneration \<longrightarrow>
            llama_vocab_is_eog e (vocab l) (sample_token e c' (vocab l) temperature))
      \<and> (ex = MaxTokens \<longleftrightarrow> i = max_tokens)
      \<and> (ex = ContextLimit \<longleftrightarrow> i < max_tokens \<and> 8192 \<le> n_pos)"
      using good(2) assms(1) bounds unfolding loop_exit_def by (cases ex) auto
    have len: "length (generated e (vocab l) temperature c k) = k" for k c
      by (induction k arbitrary: c) simp_all
    from decode_loop_trace [OF good(1)]
    have trace: "list_all (\<lambda>tok. \<not> llama_vocab_is_eog e (vocab l) tok)
              (generated e (vocab l) temperature c (nat i))
        \<and> response = concat (map (piece_bytes e (vocab l))
              (generated e (vocab l) temperature c (nat i)))
        \<and> c' = ctx_after e (vocab l) temperature c (nat i)"
      by simp
    from good(1) turn bounds len [of c "nat i"] trace exits show ?thesis
      by blast
  qed
qed

text \<open>
  Claim C1. Every call with positive \<open>max_tokens\<close> is to end by one of the three exits
  and return a string. A streamed call does not when a token detokenizes to 256
  bytes: the terminator for the sink is written at \<^verbatim>\<open>piece[256]\<close>, outside the buffer,
  and the turn has no defined result. This is the first token of the turn on an
  engine whose pieces are 256 bytes long.
\<close>

theorem sink_turn_overruns_piece:
  "llama_token_to_piece
       (mock\<lparr>llama_token_to_piece := \<lambda>v tok len lstrip special. (256, replicate 256 (CHR ''a''))\<rparr>)
       () 2 256 0 True = (256, replicate 256 (CHR ''a''))
   \<and> generate_response
       (mock\<lparr>llama_token_to_piece := \<lambda>v tok len lstrip special. (256, replicate 256 (CHR ''a''))\<rparr>)
       (Some (session [\<lparr>role = ''user'', content = ''hi''\<rparr>])) 4 0 (Some (\<lambda>p u. u @ [p])) []
     = Inl OutOfBounds
   \<and> llm_chat_respond_stream
       (mock\<lparr>llama_token_to_piece := \<lambda>v tok len lstrip special. (256, replicate 256 (CHR ''a''))\<rparr>)
       (Some (session [\<lparr>role = ''user'', content = ''hi''\<rparr>])) 4 0 (Some (\<lambda>p u. u @ [p])) []
     = Inl OutOfBounds"
proof -
  let ?e = "mock\<lparr>llama_token_to_piece :=
    \<lambda>v tok len lstrip special. (256, replicate 256 (CHR ''a''))\<rparr>"
  have tokens: "prompt_tokens ?e () [\<lparr>role = ''user'', content = ''hi''\<rparr>]
      = Inr (Continue (1 # replicate 18 3))"
    by (rule hi_tokens) (simp_all add: mock_def)
  have pre: "prefill ?e (Some []) (1 # replicate 18 3) = Inr ([] @ 1 # replicate 18 3)"
    by (rule mock_prefill) (simp_all add: mock_def)
  have loop: "decode_loop ?e () 0 (Some (\<lambda>p (u::string list). u @ [p])) 4 0 19 (1 # replicate 18 3) [] []
      = Inl OutOfBounds"
    by (subst decode_loop.simps) (simp add: mock_simps)
  have "generate_response ?e
       (Some (session [\<lparr>role = ''user'', content = ''hi''\<rparr>])) 4 0 (Some (\<lambda>p u. u @ [p])) []
     = Inl OutOfBounds"
    by (simp add: generate_response_def session_def tokens pre loop)
  then show ?thesis
    by (simp add: llm_chat_respond_stream_def)
qed

subsection \<open>The terminator written for the sink\<close>

lemma c_str_terminated: "c_str (xs @ [NUL]) = c_str xs"
  by (induction xs) (simp_all add: c_str_def)

lemma length_c_str_eq: "length (c_str xs) = length xs \<longleftrightarrow> NUL \<notin> set xs"
proof
  assume len: "length (c_str xs) = length xs"
  have "length (takeWhile (\<lambda>b. b \<noteq> NUL) xs) + length (dropWhile (\<lambda>b. b \<noteq> NUL) xs) = length xs"
    by (metis length_append takeWhile_dropWhile_id)
  with len have "dropWhile (\<lambda>b. b \<noteq> NUL) xs = []"
    by (simp add: c_str_def)
  then show "NUL \<notin> set xs"
    by (auto simp: dropWhile_eq_Nil_conv)
next
  assume "NUL \<notin> set xs"
  then show "length (c_str xs) = length xs"
    by (simp add: c_str_no_NUL)
qed

text \<open>
  Claim C10, amended. The loop detokenizes into a buffer of 256 bytes. For a token that
  is not end-of-generation and gives \<open>n > 0\<close> bytes, with a sink present, the NUL is
  written at index \<open>n\<close>. For \<open>n < 256\<close> the write is inside the buffer, the piece is
  appended and the sink is called once with the terminated buffer; the loop's last
  iteration then returns through the token bound. For \<open>n \<ge> 256\<close>, so for a piece that
  fills the buffer, the write is outside it, in every iteration. What the sink reads
  is the piece up to its first NUL byte: \<open>n\<close> bytes exactly when the piece holds no
  NUL.
\<close>

theorem terminator_write_bounds:
  assumes "n_pos < 8192"
    and "\<not> llama_vocab_is_eog e v (sample_token e c v temperature)"
    and "llama_token_to_piece e v (sample_token e c v temperature) 256 0 True = (n, piece)"
    and "0 < n"
  shows "append_piece (Some cb) user_data response n piece
           = (if n < 256
              then Inr (response @ take (nat n) piece,
                        cb (c_str (take (nat n) piece @ [NUL])) user_data)
              else Inl OutOfBounds)
       \<and> decode_loop e v temperature (Some cb) (i + 1) i n_pos c response user_data
           = (if n < 256
              then Inr (MaxTokens, i + 1, n_pos + 1,
                        snd (llama_decode e c
                          (llama_batch_get_one [sample_token e c v temperature])),
                        response @ take (nat n) piece,
                        cb (c_str (take (nat n) piece @ [NUL])) user_data)
              else Inl OutOfBounds)
       \<and> (i < max_tokens \<and> 256 \<le> n \<longrightarrow>
            decode_loop e v temperature (Some cb) max_tokens i n_pos c response user_data
              = Inl OutOfBounds)
       \<and> c_str (take (nat n) piece @ [NUL]) = c_str (take (nat n) piece)
       \<and> (nat n \<le> length piece \<longrightarrow>
            (int (length (c_str (take (nat n) piece @ [NUL]))) = n
               \<longleftrightarrow> NUL \<notin> set (take (nat n) piece)))"
proof -
  have ap: "append_piece (Some cb) user_data response n piece
           = (if n < 256
              then Inr (response @ take (nat n) piece,
                        cb (c_str (take (nat n) piece @ [NUL])) user_data)
              else Inl OutOfBounds)"
    using assms(4) by (simp add: append_piece_def)
  have over: "decode_loop e v temperature (Some cb) m i n_pos c response user_data = Inl OutOfBounds"
    if "i < m" and "256 \<le> n" for m
    using that assms ap by (subst decode_loop.simps) simp
  have last: "decode_loop e v temperature (Some cb) (i + 1) i n_pos c response user_data
           = Inr (MaxTokens, i + 1, n_pos + 1,
                  snd (llama_decode e c (llama_batch_get_one [sample_token e c v temperature])),
                  response @ take (nat n) piece,
                  cb (c_str (take (nat n) piece @ [NUL])) user_data)"
    if "n < 256"
  proof -
    have "append_piece (Some cb) user_data response n piece
            = Inr (response @ take (nat n) piece,
                   cb (c_str (take (nat n) piece @ [NUL])) user_data)"
      using ap that by simp
    moreover have "i < i + 1"
      by simp
    ultimately show ?thesis
      using decode_loop_step [OF _ assms(1-3), of i "i + 1"]
      by (simp add: decode_loop_max_tokens)
  qed
  have read: "int (length (c_str (take (nat n) piece @ [NUL]))) = n
               \<longleftrightarrow> NUL \<notin> set (take (nat n) piece)"
    if "nat n \<le> length piece"
  proof -
    have "length (take (nat n) piece) = nat n"
      using that by simp
    with length_c_str_eq [of "take (nat n) piece"] assms(4) show ?thesis
      by (auto simp: c_str_terminated)
  qed
  from ap over [of "i + 1"] over [of max_tokens] last read show ?thesis
    by (simp add: c_str_terminated)
qed

text \<open>
  The last iteration of a loop with a sink on the test engine, whose pieces are one
  byte long, and on an engine whose pieces are 256 bytes long.
\<close>

theorem terminator_write_bounds_witness:
  "decode_loop mock () 0 (Some (\<lambda>p u. u @ [p])) 1 0 2 [1, 3] [] []
       = Inr (MaxTokens, 1, 3, [1, 3, 2], ''a'', [''a''])
   \<and> append_piece (Some (\<lambda>p u. u @ [p])) [] [] 1 ''a'' = Inr (''a'', [''a''])
   \<and> decode_loop (mock\<lparr>llama_token_to_piece := \<lambda>v tok len lstrip special.
        (256, replicate 256 (CHR ''a''))\<rparr>) () 0 (Some (\<lambda>p u. u @ [p])) 1 0 2 [1, 3] [] []
       = Inl OutOfBounds
   \<and> append_piece (Some (\<lambda>p u. u @ [p])) [] [] 256 (replicate 256 (CHR ''a''))
       = Inl OutOfBounds"
proof -
  let ?full = "mock\<lparr>llama_token_to_piece := \<lambda>v tok len lstrip special.
        (256, replicate 256 (CHR ''a''))\<rparr>"
  have tok: "sample_token ?full [1, 3] () 0 = 2" "sample_token mock [1, 3] () 0 = 2"
    by (simp_all add: mock_simps)
  have a: "llama_token_to_piece ?full () (sample_token ?full [1, 3] () 0) 256 0 True
            = (256, replicate 256 (CHR ''a''))"
    by simp
  have b: "llama_token_to_piece mock () (sample_token mock [1, 3] () 0) 256 0 True = (1, ''a'')"
    by (simp add: mock_def mock_token_to_piece_def)
  have c: "\<not> llama_vocab_is_eog ?full () (sample_token ?full [1, 3] () 0)"
    "\<not> llama_vocab_is_eog mock () (sample_token mock [1, 3] () 0)"
    by (simp_all add: tok) (simp_all add: mock_def)
  from terminator_write_bounds [OF _ c(1) a, of 2 "\<lambda>p u. u @ [p]" "[]" "[]" 0 1]
    terminator_write_bounds [OF _ c(2) b, of 2 "\<lambda>p u. u @ [p]" "[]" "[]" 0 1]
  show ?thesis
    by (simp add: tok c_str_def NUL_def) (simp add: mock_def mock_decode_def llama_batch_get_one_def)
qed

text \<open>
  Claim C10 as stated fails for a piece that holds a NUL byte: the piece is one byte
  long, the write at index 1 is inside the buffer, and the sink reads no byte at all.
\<close>

theorem sink_reads_less_than_piece:
  "llama_token_to_piece
       (mock\<lparr>llama_token_to_piece := \<lambda>v tok len lstrip special. (1, [NUL])\<rparr>) () 2 256 0 True
     = (1, [NUL])
   \<and> decode_loop (mock\<lparr>llama_token_to_piece := \<lambda>v tok len lstrip special. (1, [NUL])\<rparr>)
       () 0 (Some (\<lambda>p u. u @ [p])) 1 0 2 [1, 3] [] []
     = Inr (MaxTokens, 1, 3, [1, 3, 2], [NUL], [[]])
   \<and> length ([] :: string) \<noteq> 1"
  by (simp add: decode_loop.simps mock_simps c_str_def)

subsection \<open>The stream and the returned string\<close>

lemma append_piece_without_sink:
  assumes "append_piece callback user_data response n piece = Inr (response', user_data')"
  shows "append_piece None u response n piece = Inr (response', u)"
  using assms by (auto simp: append_piece_def Let_def split: if_splits option.splits)

lemma decode_loop_without_sink:
  assumes "decode_loop e v temperature callback max_tokens i n_pos c response user_data
             = Inr (ex, i', n_pos', c', response', user_data')"
  shows "decode_loop e v temperature None max_tokens i n_pos c response u
             = Inr (ex, i', n_pos', c', response', u)"
  using assms
proof (induction e v temperature callback max_tokens i n_pos c response user_data
    rule: decode_loop.induct)
  case (1 e v temperature callback max_tokens i n_pos c response user_data)
  let ?tok = "sample_token e c v temperature"
  consider (max) "\<not> i < max_tokens" | (lim) "i < max_tokens" "\<not> n_pos < 8192"
    | (eog) "i < max_tokens" "n_pos < 8192" "llama_vocab_is_eog e v ?tok"
    | (step) "i < max_tokens" "n_pos < 8192" "\<not> llama_vocab_is_eog e v ?tok"
    by blast
  then show ?case
  proof cases
    case max
    with "1.prems" show ?thesis by (simp add: decode_loop_max_tokens)
  next
    case lim
    with "1.prems" show ?thesis by (simp add: decode_loop_context_limit)
  next
    case eog
    with "1.prems" show ?thesis by (simp add: decode_loop_eog)
  next
    case step
    obtain n piece where np: "llama_token_to_piece e v ?tok 256 0 True = (n, piece)"
      by (cases "llama_token_to_piece e v ?tok 256 0 True")
    show ?thesis
    proof (cases "append_piece callback user_data response n piece")
      case (Inl err)
      with "1.prems" step np show ?thesis
        by (subst (asm) decode_loop.simps) simp
    next
      case (Inr b)
      then obtain r1 u1 where ap: "append_piece callback user_data response n piece = Inr (r1, u1)"
        by (cases b) simp
      from "1.prems" have "decode_loop e v temperature callback max_tokens (i + 1) (n_pos + 1)
               (snd (llama_decode e c (llama_batch_get_one [?tok]))) r1 u1
             = Inr (ex, i', n_pos', c', response', user_data')"
        by (simp add: decode_loop_step [OF step np ap])
      from "1.IH" [OF step(1) step(2) refl step(3) refl np [symmetric] ap refl refl refl this]
      show ?thesis
        by (simp add: decode_loop_step [OF step np append_piece_without_sink [OF ap]])
    qed
  qed
qed

text \<open>
  The response only grows, and as long as it holds no NUL byte the pieces handed to
  the collecting sink, concatenated, are the response.
\<close>

lemma decode_loop_collects:
  assumes "decode_loop e v temperature (Some (\<lambda>p u. u @ [p])) max_tokens i n_pos c response pieces
           = Inr (ex, i', n_pos', c', response', pieces')"
  shows "set response \<subseteq> set response'
       \<and> (concat pieces = response \<and> NUL \<notin> set response' \<longrightarrow> concat pieces' = response')"
  using assms
proof (induction e v temperature "Some (\<lambda>p (u::string list). u @ [p])" max_tokens i n_pos c
    response pieces rule: decode_loop.induct)
  case (1 e v temperature max_tokens i n_pos c response pieces)
  let ?tok = "sample_token e c v temperature"
  let ?cb = "Some (\<lambda>p (u::string list). u @ [p])"
  consider (max) "\<not> i < max_tokens" | (lim) "i < max_tokens" "\<not> n_pos < 8192"
    | (eog) "i < max_tokens" "n_pos < 8192" "llama_vocab_is_eog e v ?tok"
    | (step) "i < max_tokens" "n_pos < 8192" "\<not> llama_vocab_is_eog e v ?tok"
    by blast
  then show ?case
  proof cases
    case max
    with "1.prems" show ?thesis by (simp add: decode_loop_max_tokens)
  next
    case lim
    with "1.prems" show ?thesis by (simp add: decode_loop_context_limit)
  next
    case eog
    with "1.prems" show ?thesis by (simp add: decode_loop_eog)
  next
    case step
    obtain n piece where np: "llama_token_to_piece e v ?tok 256 0 True = (n, piece)"
      by (cases "llama_token_to_piece e v ?tok 256 0 True")
    show ?thesis
    proof (cases "append_piece ?cb pieces response n piece")
      case (Inl err)
      with "1.prems" step np show ?thesis
        by (subst (asm) decode_loop.simps) simp
    next
      case (Inr b)
      then obtain r1 u1 where ap: "append_piece ?cb pieces response n piece = Inr (r1, u1)"
        by (cases b) simp
      have grows: "set response \<subseteq> set r1"
        using ap by (auto simp: append_piece_def Let_def split: if_splits)
      have inv: "concat u1 = r1" if "concat pieces = response" and "NUL \<notin> set r1"
        using ap that
        by (auto simp: append_piece_def Let_def c_str_NUL_terminated split: if_splits)
      from "1.prems" have run: "decode_loop e v temperature ?cb max_tokens (i + 1) (n_pos + 1)
               (snd (llama_decode e c (llama_batch_get_one [?tok]))) r1 u1
             = Inr (ex, i', n_pos', c', response', pieces')"
        by (simp add: decode_loop_step [OF step np ap])
      from "1.hyps" [OF step(1) step(2) refl step(3) refl np [symmetric] ap refl refl refl run]
      have ih: "set r1 \<subseteq> set response'"
        "concat u1 = r1 \<and> NUL \<notin> set response' \<longrightarrow> concat pieces' = response'"
        by simp_all
      from ih grows inv show ?thesis
        by blast
    qed
  qed
qed

text \<open>
  Claim C2, amended. A streamed turn that returns gives the caller the string and the
  session that \<open>llm_chat_respond\<close> gives for the same inputs: the sink does not
  change the result. When the prompt was built and prefilled (the turn did not return
  a sentinel) and the response that the loop assembled in this turn holds no NUL byte,
  the returned string is that response and the pieces handed to the sink, concatenated
  in the order of the calls, are the returned string.
\<close>

theorem stream_equals_result:
  assumes "generate_response e (Some l) max_tokens temperature (Some (\<lambda>p u. u @ [p])) []
             = Inr (llm', pieces, result)"
  shows "llm_chat_respond e (Some l) max_tokens temperature = Inr (llm', result)
       \<and> (prompt_tokens e (vocab l) (chat_history l) = Inr (Continue tokens)
            \<and> prefill e (ctx l) tokens = Inr c
            \<and> decode_loop e (vocab l) temperature (Some (\<lambda>p u. u @ [p])) max_tokens
                  0 (int (length tokens)) c [] []
                = Inr (ex, i, n_pos, c', response, pieces)
            \<and> NUL \<notin> set response
          \<longrightarrow> result = response \<and> concat pieces = result)"
proof -
  have same: "llm_chat_respond e (Some l) max_tokens temperature = Inr (llm', result)"
  proof (cases "prompt_tokens e (vocab l) (chat_history l)")
    case (Inl err)
    with assms show ?thesis by (simp add: generate_response_def)
  next
    case (Inr flow)
    show ?thesis
    proof (cases flow)
      case (Return s)
      with Inr assms show ?thesis
        by (auto simp: generate_response_def llm_chat_respond_def)
    next
      case (Continue toks)
      show ?thesis
      proof (cases "prefill e (ctx l) toks")
        case (Inl err)
        with Inr Continue assms show ?thesis by (simp add: generate_response_def)
      next
        case pre: (Inr c0)
        from assms Inr Continue pre obtain ex0 i0 n0 c1 r0 where
          run: "decode_loop e (vocab l) temperature (Some (\<lambda>p (u::string list). u @ [p]))
                  max_tokens 0 (int (length toks)) c0 [] [] = Inr (ex0, i0, n0, c1, r0, pieces)"
          and res: "llm' = Some (l\<lparr>ctx := Some c1\<rparr>)" "result = strdup r0"
          by (auto simp: generate_response_def split: sum.splits)
        show ?thesis
          using decode_loop_without_sink [OF run, of "()"] Inr Continue pre res
          by (simp add: llm_chat_respond_def generate_response_def)
      qed
    qed
  qed
  have "result = response \<and> concat pieces = result"
    if tokens: "prompt_tokens e (vocab l) (chat_history l) = Inr (Continue tokens)"
      and pre: "prefill e (ctx l) tokens = Inr c"
      and run: "decode_loop e (vocab l) temperature (Some (\<lambda>p u. u @ [p])) max_tokens
                  0 (int (length tokens)) c [] [] = Inr (ex, i, n_pos, c', response, pieces)"
      and clean: "NUL \<notin> set response"
  proof -
    from assms tokens pre run have "result = strdup response"
      by (simp add: generate_response_def)
    with clean have "result = response"
      by (simp add: strdup_def c_str_no_NUL)
    moreover from decode_loop_collects [OF run] clean have "concat pieces = response"
      by simp
    ultimately show ?thesis by simp
  qed
  with same show ?thesis by blast
qed

text \<open>
  A streamed turn on a test engine that has a token whose piece is a NUL byte; the
  turn does not sample it.
\<close>

theorem stream_equals_result_witness:
  "llama_token_to_piece
       (mock\<lparr>llama_token_to_piece := \<lambda>v tok len lstrip special.
          if tok = 7 then (1, [NUL]) else (1, ''a'')\<rparr>) () 7 256 0 True = (1, [NUL])
   \<and> generate_response
       (mock\<lparr>llama_token_to_piece := \<lambda>v tok len lstrip special.
          if tok = 7 then (1, [NUL]) else (1, ''a'')\<rparr>)
       (Some (session [\<lparr>role = ''user'', content = ''hi''\<rparr>])) 4 0 (Some (\<lambda>p u. u @ [p])) []
     = Inr (Some ((session [\<lparr>role = ''user'', content = ''hi''\<rparr>])
               \<lparr>ctx := Some (1 # replicate 18 3 @ [2, 1])\<rparr>), [''a'', ''a''], ''aa'')
   \<and> llm_chat_respond
       (mock\<lparr>llama_token_to_piece := \<lambda>v tok len lstrip special.
          if tok = 7 then (1, [NUL]) else (1, ''a'')\<rparr>)
       (Some (session [\<lparr>role = ''user'', content = ''hi''\<rparr>])) 4 0
     = Inr (Some ((session [\<lparr>role = ''user'', content = ''hi''\<rparr>])
               \<lparr>ctx := Some (1 # replicate 18 3 @ [2, 1])\<rparr>), ''aa'')
   \<and> NUL \<notin> set ''aa''
   \<and> concat [''a'', ''a''] = ''aa''"
proof -
  let ?e = "mock\<lparr>llama_token_to_piece := \<lambda>v tok len lstrip special.
          if tok = 7 then (1, [NUL]) else (1, ''a'')\<rparr>"
  let ?l = "session [\<lparr>role = ''user'', content = ''hi''\<rparr>]"
  have tokens: "prompt_tokens ?e (vocab ?l) (chat_history ?l) = Inr (Continue (1 # replicate 18 3))"
    unfolding session_def by simp (rule hi_tokens, simp_all add: mock_def)
  have pre: "prefill ?e (ctx ?l) (1 # replicate 18 3) = Inr (1 # replicate 18 3)"
    using mock_prefill [of ?e "1 # replicate 18 3" "[]"] by (simp add: session_def mock_def)
  have loop: "decode_loop ?e (vocab ?l) 0 (Some (\<lambda>p (u::string list). u @ [p])) 4 0
        (int (length (1 # replicate 18 (3::int)))) (1 # replicate 18 3) [] []
      = Inr (EndOfGeneration, 2, 21, 1 # replicate 18 3 @ [2, 1], ''aa'', [''a'', ''a''])"
    by (simp add: session_def decode_loop.simps mock_simps c_str_def NUL_def)
  have clean: "NUL \<notin> set ''aa''"
    by (simp add: NUL_def)
  have turn: "generate_response ?e (Some ?l) 4 0 (Some (\<lambda>p u. u @ [p])) []
     = Inr (Some (?l\<lparr>ctx := Some (1 # replicate 18 3 @ [2, 1])\<rparr>), [''a'', ''a''], ''aa'')"
    using tokens pre loop by (simp add: generate_response_def strdup_def c_str_def NUL_def)
  from stream_equals_result [OF turn, of "1 # replicate 18 3" "1 # replicate 18 3"
      EndOfGeneration 2 21 "1 # replicate 18 3 @ [2, 1]" "''aa''"] tokens pre loop clean turn
  show ?thesis
    by simp
qed

text \<open>
  Claim C2 as stated fails on two turns. A turn whose template fails returns the
  sentinel and never calls the sink. On an engine whose piece is \<open>a\<close>, NUL, \<open>b\<close> the
  sink reads \<open>a\<close> twice, while the returned copy of the response stops at the first
  NUL.
\<close>

theorem stream_differs_from_result:
  "generate_response mock (Some (session [\<lparr>role = ''usr'', content = ''hi''\<rparr>])) 4 0
       (Some (\<lambda>p u. u @ [p])) []
     = Inr (Some (session [\<lparr>role = ''usr'', content = ''hi''\<rparr>]), [],
            ''[Error: chat template failed]'')
   \<and> concat ([] :: string list) \<noteq> ''[Error: chat template failed]''
   \<and> generate_response
       (mock\<lparr>llama_token_to_piece := \<lambda>v tok len lstrip special. (3, [CHR ''a'', NUL, CHR ''b''])\<rparr>)
       (Some (session [\<lparr>role = ''user'', content = ''hi''\<rparr>])) 4 0 (Some (\<lambda>p u. u @ [p])) []
     = Inr (Some ((session [\<lparr>role = ''user'', content = ''hi''\<rparr>])
               \<lparr>ctx := Some (1 # replicate 18 3 @ [2, 1])\<rparr>), [''a'', ''a''], ''a'')
   \<and> concat [''a'', ''a''] \<noteq> ''a''"
proof -
  let ?e = "mock\<lparr>llama_token_to_piece :=
    \<lambda>v tok len lstrip special. (3, [CHR ''a'', NUL, CHR ''b''])\<rparr>"
  have failed: "generate_response mock (Some (session [\<lparr>role = ''usr'', content = ''hi''\<rparr>])) 4 0
       (Some (\<lambda>p u. u @ [p])) []
     = Inr (Some (session [\<lparr>role = ''usr'', content = ''hi''\<rparr>]), [],
            ''[Error: chat template failed]'')"
    by (simp add: generate_response_def prompt_tokens_def rendered_prompt_def session_def
        length_resize mock_def mock_chat_apply_template_def strdup_def c_str_def NUL_def)
  have tokens: "prompt_tokens ?e () [\<lparr>role = ''user'', content = ''hi''\<rparr>]
      = Inr (Continue (1 # replicate 18 3))"
    by (rule hi_tokens) (simp_all add: mock_def)
  have pre: "prefill ?e (Some []) (1 # replicate 18 3) = Inr ([] @ 1 # replicate 18 3)"
    by (rule mock_prefill) (simp_all add: mock_def)
  have "generate_response ?e
       (Some (session [\<lparr>role = ''user'', content = ''hi''\<rparr>])) 4 0 (Some (\<lambda>p u. u @ [p])) []
     = Inr (Some ((session [\<lparr>role = ''user'', content = ''hi''\<rparr>])
               \<lparr>ctx := Some (1 # replicate 18 3 @ [2, 1])\<rparr>), [''a'', ''a''], ''a'')"
    apply (simp add: generate_response_def session_def tokens pre)
    apply (simp add: decode_loop.simps mock_simps strdup_def c_str_def NUL_def)
    done
  with failed show ?thesis by simp
qed

subsection \<open>The status of a decode call\<close>

lemma reports_success_fields:
  "llama_chat_apply_template (reports_success e) = llama_chat_apply_template e"
  "llama_tokenize (reports_success e) = llama_tokenize e"
  "llama_sampler_sample (reports_success e) = llama_sampler_sample e"
  "llama_vocab_is_eog (reports_success e) = llama_vocab_is_eog e"
  "llama_token_to_piece (reports_success e) = llama_token_to_piece e"
  "snd (llama_decode (reports_success e) c batch) = snd (llama_decode e c batch)"
  by (simp_all add: reports_success_def)

lemma decode_loop_reports_success:
  "decode_loop (reports_success e) v temperature callback max_tokens i n_pos c response user_data
     = decode_loop e v temperature callback max_tokens i n_pos c response user_data"
proof (induction e v temperature callback max_tokens i n_pos c response user_data
    rule: decode_loop.induct)
  case (1 e v temperature callback max_tokens i n_pos c response user_data)
  let ?e = "reports_success e"
  let ?tok = "sample_token e c v temperature"
  have tok: "sample_token ?e c v temperature = ?tok"
    by (simp add: sample_token_def reports_success_fields)
  consider (max) "\<not> i < max_tokens" | (lim) "i < max_tokens" "\<not> n_pos < 8192"
    | (eog) "i < max_tokens" "n_pos < 8192" "llama_vocab_is_eog e v ?tok"
    | (step) "i < max_tokens" "n_pos < 8192" "\<not> llama_vocab_is_eog e v ?tok"
    by blast
  then show ?case
  proof cases
    case max
    then show ?thesis by (simp add: decode_loop_max_tokens)
  next
    case lim
    then show ?thesis by (simp add: decode_loop_context_limit)
  next
    case eog
    then have "llama_vocab_is_eog ?e v (sample_token ?e c v temperature)"
      by (simp add: tok reports_success_fields)
    with eog show ?thesis by (simp add: decode_loop_eog)
  next
    case step
    obtain n piece where np: "llama_token_to_piece e v ?tok 256 0 True = (n, piece)"
      by (cases "llama_token_to_piece e v ?tok 256 0 True")
    have step': "\<not> llama_vocab_is_eog ?e v (sample_token ?e c v temperature)"
      and np': "llama_token_to_piece ?e v (sample_token ?e c v temperature) 256 0 True = (n, piece)"
      using step(3) np by (simp_all add: tok reports_success_fields)
    show ?thesis
    proof (cases "append_piece callback user_data response n piece")
      case (Inl err)
      have "decode_loop e v temperature callback max_tokens i n_pos c response user_data = Inl err"
        using step np Inl by (subst decode_loop.simps) simp
      moreover
      have "decode_loop ?e v temperature callback max_tokens i n_pos c response user_data = Inl err"
        using step(1,2) step' np' Inl by (subst decode_loop.simps) simp
      ultimately show ?thesis by simp
    next
      case (Inr b)
      then obtain r1 u1 where ap: "append_piece callback user_data response n piece = Inr (r1, u1)"
        by (cases b) simp
      from "1.IH" [OF step(1) step(2) refl step(3) refl np [symmetric] ap refl refl refl]
      show ?thesis
        by (simp add: decode_loop_step [OF step np ap] decode_loop_step [OF step(1,2) step' np' ap]
            tok reports_success_fields)
    qed
  qed
qed

text \<open>
  Claim C4, amended. A prefill whose decode call fails does not abort the turn and is
  not reported: the status of every \<^verbatim>\<open>llama_decode\<close> is dropped, so the turn returns
  what it returns on the engine that leaves the same contexts and reports success each
  time. Only a failed template and a failed tokenization are reported, as sentinels.
\<close>

theorem decode_status_dropped:
  "generate_response (reports_success e) llm max_tokens temperature callback user_data
     = generate_response e llm max_tokens temperature callback user_data"
proof -
  have a: "rendered_prompt (reports_success e) v history = rendered_prompt e v history" for v history
    unfolding rendered_prompt_def reports_success_fields by (rule refl)
  have b: "prompt_tokens (reports_success e) v history = prompt_tokens e v history" for v history
    unfolding prompt_tokens_def reports_success_fields a by (rule refl)
  have c: "prefill (reports_success e) cp tokens = prefill e cp tokens" for cp tokens
    unfolding prefill_def reports_success_fields by (rule refl)
  show ?thesis
    unfolding generate_response_def b c decode_loop_reports_success by (rule refl)
qed

text \<open>
  An engine whose decode calls all fail with status 1 and leave the context as it is: a
  session with one token in its cache answers with four pieces.
\<close>

theorem decode_status_dropped_witness:
  "generate_response (reports_success (mock\<lparr>llama_decode := \<lambda>c batch. (1, c)\<rparr>))
       (Some ((session [\<lparr>role = ''user'', content = ''hi''\<rparr>])\<lparr>ctx := Some [3]\<rparr>)) 4 0 None ()
     = Inr (Some ((session [\<lparr>role = ''user'', content = ''hi''\<rparr>])\<lparr>ctx := Some [3]\<rparr>), (), ''aaaa'')"
proof -
  let ?e = "mock\<lparr>llama_decode := \<lambda>c batch. (1, c)\<rparr>"
  have tokens: "prompt_tokens ?e () [\<lparr>role = ''user'', content = ''hi''\<rparr>]
      = Inr (Continue (1 # replicate 18 3))"
    by (rule hi_tokens) (simp_all add: mock_def)
  have "generate_response ?e
       (Some ((session [\<lparr>role = ''user'', content = ''hi''\<rparr>])\<lparr>ctx := Some [3]\<rparr>)) 4 0 None ()
     = Inr (Some ((session [\<lparr>role = ''user'', content = ''hi''\<rparr>])\<lparr>ctx := Some [3]\<rparr>), (), ''aaaa'')"
    apply (simp add: generate_response_def session_def tokens prefill_def prefill_batch_eq)
    apply (simp add: decode_loop.simps mock_simps strdup_def c_str_def NUL_def)
    done
  then show ?thesis
    by (subst decode_status_dropped)
qed

text \<open>
  Claim C4 as stated fails on that engine: the decode of the prefill batch returns
  status 1, and the turn returns an ordinary response.
\<close>

theorem failed_prefill_not_surfaced:
  "map_sum id (\<lambda>batch. fst (llama_decode (mock\<lparr>llama_decode := \<lambda>c batch. (1, c)\<rparr>) [3] batch))
       (prefill_batch (1 # replicate 18 3)) = Inr 1
   \<and> prompt_tokens (mock\<lparr>llama_decode := \<lambda>c batch. (1, c)\<rparr>) ()
       [\<lparr>role = ''user'', content = ''hi''\<rparr>] = Inr (Continue (1 # replicate 18 3))
   \<and> generate_response (mock\<lparr>llama_decode := \<lambda>c batch. (1, c)\<rparr>)
       (Some ((session [\<lparr>role = ''user'', content = ''hi''\<rparr>])\<lparr>ctx := Some [3]\<rparr>)) 4 0 None ()
     = Inr (Some ((session [\<lparr>role = ''user'', content = ''hi''\<rparr>])\<lparr>ctx := Some [3]\<rparr>), (), ''aaaa'')"
proof -
  let ?e = "mock\<lparr>llama_decode := \<lambda>c batch. (1, c)\<rparr>"
  have tokens: "prompt_tokens ?e () [\<lparr>role = ''user'', content = ''hi''\<rparr>]
      = Inr (Continue (1 # replicate 18 3))"
    by (rule hi_tokens) (simp_all add: mock_def)
  have "generate_response ?e
       (Some ((session [\<lparr>role = ''user'', content = ''hi''\<rparr>])\<lparr>ctx := Some [3]\<rparr>)) 4 0 None ()
     = Inr (Some ((session [\<lparr>role = ''user'', content = ''hi''\<rparr>])\<lparr>ctx := Some [3]\<rparr>), (), ''aaaa'')"
    apply (simp add: generate_response_def session_def tokens prefill_def prefill_batch_eq)
    apply (simp add: decode_loop.simps mock_simps strdup_def c_str_def NUL_def)
    done
  with tokens show ?thesis
    by (simp add: prefill_batch_eq)
qed

end
